theory Spec2Isabelle
  imports Complex_Main "HOL-Library.Monad_Syntax"
begin

section \<open>Quantities with units\<close>

text \<open>
  The two notebooks compute with \<^verbatim>\<open>astropy.units\<close>: a quantity is a magnitude together
  with a unit, a plain Python number is a dimensionless quantity, and a unit behaves in a
  product like the quantity of magnitude one. A unit is kept here in decomposed form: its
  scale with respect to the base units FLOP, second and radian, and the power of each base.

  Magnitudes are exact real numbers: a decimal literal of the notebook stands for its
  decimal value, and \<^verbatim>\<open>/\<close> is the true division of Python 3 (the kernel both
  notebooks record). Neither the rounding nor the overflow of binary64 arithmetic is part of
  the model, so it says nothing about floating-point tolerances.
\<close>

datatype UnitBase = Unit (scale: real) (pFLOP: int) (pSecond: int) (pRadian: int)

datatype Quantity = Quantity (qvalue: real) (qunit: UnitBase)

instantiation UnitBase :: "{one, times, inverse}"
begin

definition one_UnitBase :: UnitBase where
  "one_UnitBase = Unit 1 0 0 0"

definition times_UnitBase :: "UnitBase \<Rightarrow> UnitBase \<Rightarrow> UnitBase" where
  "times_UnitBase u v =
     Unit (scale u * scale v) (pFLOP u + pFLOP v) (pSecond u + pSecond v) (pRadian u + pRadian v)"

definition inverse_UnitBase :: "UnitBase \<Rightarrow> UnitBase" where
  "inverse_UnitBase u = Unit (inverse (scale u)) (- pFLOP u) (- pSecond u) (- pRadian u)"

definition divide_UnitBase :: "UnitBase \<Rightarrow> UnitBase \<Rightarrow> UnitBase" where
  "divide_UnitBase u v =
     Unit (scale u / scale v) (pFLOP u - pFLOP v) (pSecond u - pSecond v) (pRadian u - pRadian v)"

instance ..

end

instantiation Quantity :: "{one, times, inverse}"
begin

definition one_Quantity :: Quantity where
  "one_Quantity = Quantity 1 1"

definition times_Quantity :: "Quantity \<Rightarrow> Quantity \<Rightarrow> Quantity" where
  "times_Quantity a b = Quantity (qvalue a * qvalue b) (qunit a * qunit b)"

definition inverse_Quantity :: "Quantity \<Rightarrow> Quantity" where
  "inverse_Quantity a = Quantity (inverse (qvalue a)) (inverse (qunit a))"

definition divide_Quantity :: "Quantity \<Rightarrow> Quantity \<Rightarrow> Quantity" where
  "divide_Quantity a b = Quantity (qvalue a / qvalue b) (qunit a / qunit b)"

instance ..

end

instance Quantity :: power ..

text \<open>A plain Python number, as it enters a product or a quotient with a quantity.\<close>

definition num :: "real \<Rightarrow> Quantity" where
  "num r = Quantity r 1"

text \<open>Two units are convertible when they have the same powers of the base units.\<close>

definition convertible :: "UnitBase \<Rightarrow> UnitBase \<Rightarrow> bool" where
  "convertible u v = (pFLOP u = pFLOP v \<and> pSecond u = pSecond v \<and> pRadian u = pRadian v)"

text \<open>
  \<^verbatim>\<open>q.to(unit)\<close>: the magnitude of \<open>q\<close> expressed in the unit of \<open>target\<close>;
  \<open>None\<close> is astropy's \<^verbatim>\<open>UnitConversionError\<close>.
\<close>

definition to :: "Quantity \<Rightarrow> Quantity \<Rightarrow> Quantity option" where
  "to q target =
     (if convertible (qunit q) (qunit target)
      then Some (Quantity (qvalue q * (scale (qunit q) / scale (qunit target))) (qunit target))
      else None)"

text \<open>
  \<^verbatim>\<open>a + b\<close> on quantities: \<open>b\<close> is converted to the unit of \<open>a\<close>;
  \<open>None\<close> when the units are not convertible.
\<close>

definition add :: "Quantity \<Rightarrow> Quantity \<Rightarrow> Quantity option" where
  "add a b = do {
     b' \<leftarrow> to b a;
     Some (Quantity (qvalue a + qvalue b') (qunit a))
   }"

text \<open>\<^verbatim>\<open>u.def_unit(name, represents)\<close>: a new unit that stands for the quantity given.\<close>

definition def_unit :: "Quantity \<Rightarrow> Quantity" where
  "def_unit represents =
     Quantity 1 (Unit (qvalue represents * scale (qunit represents))
                      (pFLOP (qunit represents)) (pSecond (qunit represents))
                      (pRadian (qunit represents)))"

text \<open>The units of \<^verbatim>\<open>astropy.units\<close> that the notebooks use.\<close>

definition second :: Quantity where
  "second = Quantity 1 (Unit 1 0 1 0)"

definition week :: Quantity where
  "week = Quantity 1 (Unit 604800 0 1 0)"

definition year :: Quantity where
  "year = Quantity 1 (Unit 31557600 0 1 0)"

definition degree :: Quantity where
  "degree = Quantity 1 (Unit (pi / 180) 0 0 1)"

text \<open>The units the notebooks define (cell 2, the same in both).\<close>

definition flop :: Quantity where
  "flop = Quantity 1 (Unit 1 1 0 0)"

definition cycle :: Quantity where
  "cycle = def_unit (num 4 * num 0.68 * flop)"

definition tflops :: Quantity where
  "tflops = def_unit ((flop * num (10 ^ 12)) / (num 1 * second))"

section \<open>Parameter tables\<close>

record Telescope =
  nCcds :: real
  nFilters :: real
  fieldOfView :: Quantity

record Survey =
  duration :: Quantity
  nVisits :: real
  nEpochs :: real
  nFields :: real
  nStars :: real
  nOutOfPlaneStars :: real
  nForcedSources :: real
  computeTime :: Quantity

record Computer =
  clockSpeed :: Quantity

record CoaddParameters =
  pixelDensityFactor :: real
  imageReuse :: real
  deblendFactor :: real

record TemplateParameters =
  nTypes :: real
  nVersions :: real
  depth :: real

text \<open>The constructors only store their arguments.\<close>

definition Telescope_init :: "real \<Rightarrow> real \<Rightarrow> Quantity \<Rightarrow> Telescope" where
  "Telescope_init nCcds' nFilters' fieldOfView' =
     \<lparr>nCcds = nCcds', nFilters = nFilters', fieldOfView = fieldOfView'\<rparr>"

definition Survey_init ::
  "Quantity \<Rightarrow> real \<Rightarrow> real \<Rightarrow> real \<Rightarrow> real \<Rightarrow> real \<Rightarrow> real \<Rightarrow> Quantity \<Rightarrow> Survey" where
  "Survey_init duration' visits epochs fields' stars surveyStars forcedSources computeTime' =
     \<lparr>duration = duration', nVisits = visits, nEpochs = epochs, nFields = fields',
      nStars = stars, nOutOfPlaneStars = surveyStars, nForcedSources = forcedSources,
      computeTime = computeTime'\<rparr>"

definition Computer_init :: "Quantity \<Rightarrow> Computer" where
  "Computer_init clockSpeed' = \<lparr>clockSpeed = clockSpeed'\<rparr>"

definition CoaddParameters_init :: "real \<Rightarrow> real \<Rightarrow> real \<Rightarrow> CoaddParameters" where
  "CoaddParameters_init pixelDensityFactor' imageReuse' deblendFactor' =
     \<lparr>pixelDensityFactor = pixelDensityFactor', imageReuse = imageReuse',
      deblendFactor = deblendFactor'\<rparr>"

definition TemplateParameters_init :: "real \<Rightarrow> real \<Rightarrow> real \<Rightarrow> TemplateParameters" where
  "TemplateParameters_init templateTypes templateVersions templateDepth =
     \<lparr>nTypes = templateTypes, nVersions = templateVersions, depth = templateDepth\<rparr>"

text \<open>The tables that both notebooks build with the same literals.\<close>

definition lsst :: Telescope where
  "lsst = Telescope_init 189 6 (num pi * (num 1.75 * degree) ^ 2)"

definition abe :: Computer where
  "abe = Computer_init (num 2330000000 * cycle / second)"

definition lsst_dev :: Computer where
  "lsst_dev = Computer_init (num 3100000000 * cycle / second)"

definition tiger3 :: Computer where
  "tiger3 = Computer_init (num 2800000000 * cycle / second)"

definition coaddParams :: CoaddParameters where
  "coaddParams = CoaddParameters_init 1 4 0.1"

definition templateParams :: TemplateParameters where
  "templateParams = TemplateParameters_init 6 3 5"

section \<open>The six-month notebook\<close>

definition lsstWideAndFastDR1 :: Survey where
  "lsstWideAndFastDR1 =
     Survey_init (num 0.5 * year) (2750000 / 20) (1056 / 20) 2604
       14706186098 5141033287 1195070000000 (num 9 * week)"

definition calcDiffimCycles_6m :: "Quantity \<Rightarrow> Telescope \<Rightarrow> Survey \<Rightarrow> Computer \<Rightarrow> Quantity" where
  "calcDiffimCycles_6m timePerCcd telescope survey computer =
     timePerCcd * num (nCcds telescope) * num (nVisits survey) * clockSpeed computer"

definition diffimCycles_6m :: Quantity where
  "diffimCycles_6m = calcDiffimCycles_6m (num 75.8 * second) lsst lsstWideAndFastDR1 abe"

definition calcTemplateCoadditionCycles_6m ::
  "Quantity \<Rightarrow> CoaddParameters \<Rightarrow> TemplateParameters \<Rightarrow> Telescope \<Rightarrow> Survey \<Rightarrow> Computer
     \<Rightarrow> Quantity" where
  "calcTemplateCoadditionCycles_6m timePerCcd coaddParams' templateParams' telescope survey computer =
     timePerCcd * num (nCcds telescope) * num (pixelDensityFactor coaddParams') *
     num (nFields survey) * num (nTypes templateParams') * num (nVersions templateParams') *
     num (depth templateParams') * clockSpeed computer"

definition templateCycles_6m :: Quantity where
  "templateCycles_6m =
     calcTemplateCoadditionCycles_6m (num 75.8 * second) coaddParams templateParams
       lsst lsstWideAndFastDR1 abe"

definition calcDeepCoadditionCycles_6m ::
  "Quantity \<Rightarrow> CoaddParameters \<Rightarrow> Telescope \<Rightarrow> Survey \<Rightarrow> Computer \<Rightarrow> Quantity" where
  "calcDeepCoadditionCycles_6m timePerCcd coaddParams' telescope survey computer =
     timePerCcd * num (nCcds telescope) * clockSpeed computer * num (imageReuse coaddParams') *
     num (nVisits survey)"

definition deepCoaddCycles_6m :: Quantity where
  "deepCoaddCycles_6m =
     calcDeepCoadditionCycles_6m (num 75.8 * second) coaddParams lsst lsstWideAndFastDR1 abe"

definition calcCoaddProcessCycles ::
  "Quantity \<Rightarrow> CoaddParameters \<Rightarrow> Telescope \<Rightarrow> Survey \<Rightarrow> Computer \<Rightarrow> Quantity" where
  "calcCoaddProcessCycles timePerCcd coaddParams' telescope survey computer =
     (let perCoadd = timePerCcd * num (nCcds telescope) * clockSpeed computer *
                     num (pixelDensityFactor coaddParams') * num (deblendFactor coaddParams' + 1);
          coaddsPerField = nFilters telescope + 1
      in perCoadd * num coaddsPerField * num (nFields survey))"

definition coaddSrcDetCycles :: Quantity where
  "coaddSrcDetCycles =
     calcCoaddProcessCycles (num 6.19 * second) coaddParams lsst lsstWideAndFastDR1 abe"

definition coaddSrcMeasCycles :: Quantity where
  "coaddSrcMeasCycles =
     calcCoaddProcessCycles (num 10.50 * second) coaddParams lsst lsstWideAndFastDR1 abe"

definition coaddProcessCycles_6m :: "Quantity option" where
  "coaddProcessCycles_6m = add coaddSrcDetCycles coaddSrcMeasCycles"

definition calcMultiEpochCycles_6m :: "Quantity \<Rightarrow> Survey \<Rightarrow> Computer \<Rightarrow> Quantity" where
  "calcMultiEpochCycles_6m timePerObject' survey computer =
     (let galacticPlaneObjects = nStars survey - nOutOfPlaneStars survey;
          galacticPlaneForcedSrcs = galacticPlaneObjects * nEpochs survey;
          outOfPlaneForcedSrcs = nForcedSources survey - galacticPlaneForcedSrcs
      in num outOfPlaneForcedSrcs * timePerObject' * clockSpeed computer)"

definition multiEpochCycles_6m :: Quantity where
  "multiEpochCycles_6m = calcMultiEpochCycles_6m (num 0.096 * second) lsstWideAndFastDR1 lsst_dev"

definition calcAlertSDQA_6m :: "Quantity \<Rightarrow> Survey \<Rightarrow> Computer \<Rightarrow> Quantity" where
  "calcAlertSDQA_6m timePerVisit survey computer =
     timePerVisit * num (nVisits survey) * clockSpeed computer"

definition sdqaCycles_6m :: Quantity where
  "sdqaCycles_6m = calcAlertSDQA_6m (num 600 * second) lsstWideAndFastDR1 abe"

text \<open>The totals: the sum is taken from left to right, as Python evaluates it.\<close>

definition totalCycles_6m :: "Quantity option" where
  "totalCycles_6m = do {
     coaddProcessCycles \<leftarrow> coaddProcessCycles_6m;
     s1 \<leftarrow> add diffimCycles_6m templateCycles_6m;
     s2 \<leftarrow> add s1 deepCoaddCycles_6m;
     s3 \<leftarrow> add s2 coaddProcessCycles;
     s4 \<leftarrow> add s3 multiEpochCycles_6m;
     add s4 sdqaCycles_6m
   }"

definition totalFlop_6m :: "Quantity option" where
  "totalFlop_6m = do { totalCycles \<leftarrow> totalCycles_6m; to totalCycles flop }"

text \<open>The last cell: \<^verbatim>\<open>(totalFlop / lsstWideAndFastDR1.computeTime).to(tflops)\<close>.\<close>

definition finalTotal_6m :: "Quantity option" where
  "finalTotal_6m = do {
     totalFlop \<leftarrow> totalFlop_6m;
     to (totalFlop / computeTime lsstWideAndFastDR1) tflops
   }"

section \<open>The one-year notebook\<close>

definition lsstWideAndFast1Year :: Survey where
  "lsstWideAndFast1Year =
     Survey_init year (2750000 / 10) (1056 / 10) 2604
       17100000000 5630000000 2910000000000 (num 9 * week)"

definition ksk_mbp :: Computer where
  "ksk_mbp = Computer_init (num 3000000000 * cycle / second)"

definition calcDiffimCycles_1y :: "Quantity \<Rightarrow> Telescope \<Rightarrow> Survey \<Rightarrow> Computer \<Rightarrow> Quantity" where
  "calcDiffimCycles_1y timePerCcd telescope survey computer =
     timePerCcd * num (nCcds telescope) * num (nVisits survey) * clockSpeed computer"

definition diffimCycles_1y :: Quantity where
  "diffimCycles_1y = calcDiffimCycles_1y (num 70 * second) lsst lsstWideAndFast1Year lsst_dev"

definition nCalexps :: real where
  "nCalexps = 60"

definition hscToLsstScale :: real where
  "hscToLsstScale = 2"

definition makeTempExpTime :: Quantity where
  "makeTempExpTime = second * num ((190.72 - 10.17) + (189.47 - 10.24)) / num 2"

definition assembleCoaddTime :: Quantity where
  "assembleCoaddTime = second * num ((49.31 - 10.24) + (49.22 - 9.73)) / num 2"

definition coaddCcdTime :: "Quantity option" where
  "coaddCcdTime = do {
     t \<leftarrow> add makeTempExpTime assembleCoaddTime;
     Some (num hscToLsstScale * t / num nCalexps)
   }"

definition calcTemplateCoadditionCycles_1y ::
  "Quantity \<Rightarrow> CoaddParameters \<Rightarrow> TemplateParameters \<Rightarrow> Telescope \<Rightarrow> Survey \<Rightarrow> Computer
     \<Rightarrow> Quantity" where
  "calcTemplateCoadditionCycles_1y timePerCcd coaddParams' templateParams' telescope survey computer =
     timePerCcd * num (nCcds telescope) * num (pixelDensityFactor coaddParams') *
     num (nFields survey) * num (nTypes templateParams') * num (nVersions templateParams') *
     num (depth templateParams') * clockSpeed computer"

definition templateCycles_1y :: "Quantity option" where
  "templateCycles_1y = do {
     t \<leftarrow> coaddCcdTime;
     Some (calcTemplateCoadditionCycles_1y t coaddParams templateParams
             lsst lsstWideAndFast1Year tiger3)
   }"

definition calcDeepCoadditionCycles_1y ::
  "Quantity \<Rightarrow> CoaddParameters \<Rightarrow> Telescope \<Rightarrow> Survey \<Rightarrow> Computer \<Rightarrow> Quantity" where
  "calcDeepCoadditionCycles_1y timePerCcd coaddParams' telescope survey computer =
     timePerCcd * num (nCcds telescope) * clockSpeed computer * num (imageReuse coaddParams') *
     num (nVisits survey)"

definition deepCoaddCycles_1y :: "Quantity option" where
  "deepCoaddCycles_1y = do {
     t \<leftarrow> coaddCcdTime;
     Some (calcDeepCoadditionCycles_1y t coaddParams lsst lsstWideAndFast1Year abe)
   }"

definition coaddToCcd :: real where
  "coaddToCcd = (4000.0 * 4072.0) / (4200.0 * 4200.0)"

definition detectTimePerCcd :: Quantity where
  "detectTimePerCcd = num ((8.405 + 7.986 + 8.347) * coaddToCcd) * second / num 3"

definition measureTimePerCcd :: Quantity where
  "measureTimePerCcd = num ((138.512 + 129.993 + 108.708) * coaddToCcd) * second / num 3"

text \<open>
  The coadd detection and measurement cell of the one-year notebook is not a function: it
  reads the tables \<^verbatim>\<open>lsst\<close>, \<^verbatim>\<open>lsst_dev\<close>, \<^verbatim>\<open>coaddParams\<close> and
  \<^verbatim>\<open>lsstWideAndFast1Year\<close> directly. The cell is written here once, with the two
  per-CCD times and the tables it reads as parameters; the notebook's values are its
  instance at those tables.
\<close>

definition mergeTime_of :: "Telescope \<Rightarrow> Quantity" where
  "mergeTime_of telescope = num ((nFilters telescope + 1) ^ 2 * 12.798 / (3 ^ 2)) * second"

definition coaddSrcDetAndMeasCycles_of ::
  "Quantity \<Rightarrow> Telescope \<Rightarrow> Computer \<Rightarrow> CoaddParameters \<Rightarrow> Survey \<Rightarrow> Quantity" where
  "coaddSrcDetAndMeasCycles_of detectPlusMeasure telescope computer coaddParams' survey =
     detectPlusMeasure * num (nCcds telescope) *
     clockSpeed computer * num (pixelDensityFactor coaddParams') *
     num (nFilters telescope + 1) * num (nFields survey)"

definition coaddMergeCycles_of :: "Telescope \<Rightarrow> Computer \<Rightarrow> Survey \<Rightarrow> Quantity" where
  "coaddMergeCycles_of telescope computer survey =
     mergeTime_of telescope * clockSpeed computer * num (nFields survey)"

definition coaddProcessCycles_of ::
  "Quantity \<Rightarrow> Quantity \<Rightarrow> Telescope \<Rightarrow> Computer \<Rightarrow> CoaddParameters \<Rightarrow> Survey
     \<Rightarrow> Quantity option" where
  "coaddProcessCycles_of detectTime measureTime telescope computer coaddParams' survey = do {
     detectPlusMeasure \<leftarrow> add detectTime measureTime;
     add (coaddMergeCycles_of telescope computer survey)
         (coaddSrcDetAndMeasCycles_of detectPlusMeasure telescope computer coaddParams' survey)
   }"

definition mergeTime :: Quantity where
  "mergeTime = mergeTime_of lsst"

definition coaddMergeCycles :: Quantity where
  "coaddMergeCycles = coaddMergeCycles_of lsst lsst_dev lsstWideAndFast1Year"

definition coaddProcessCycles_1y :: "Quantity option" where
  "coaddProcessCycles_1y =
     coaddProcessCycles_of detectTimePerCcd measureTimePerCcd
       lsst lsst_dev coaddParams lsstWideAndFast1Year"

definition numSources :: real where
  "numSources = 10983"

text \<open>The forced photometry time, then \<^verbatim>\<open>timePerObject += ...\<close> for multifit.\<close>

definition timePerObject :: "Quantity option" where
  "timePerObject =
     add (second * num (62.428 + 62.082 + 56.435) / num (3 * numSources))
         (num (200 * 0.56 / 1000) * second)"

definition calcMultiEpochCycles_1y :: "Quantity \<Rightarrow> Survey \<Rightarrow> Computer \<Rightarrow> Quantity" where
  "calcMultiEpochCycles_1y timePerObject' survey computer =
     (let galacticPlaneObjects = nStars survey - nOutOfPlaneStars survey;
          galacticPlaneForcedSrcs = galacticPlaneObjects * nEpochs survey;
          outOfPlaneForcedSrcs = nForcedSources survey - galacticPlaneForcedSrcs
      in num outOfPlaneForcedSrcs * timePerObject' * clockSpeed computer)"

definition multiEpochCycles_1y :: "Quantity option" where
  "multiEpochCycles_1y = do {
     t \<leftarrow> timePerObject;
     Some (calcMultiEpochCycles_1y t lsstWideAndFast1Year lsst_dev)
   }"

definition calcAlertSDQA_1y :: "Quantity \<Rightarrow> Survey \<Rightarrow> Computer \<Rightarrow> Quantity" where
  "calcAlertSDQA_1y timePerVisit survey computer =
     timePerVisit * num (nVisits survey) * clockSpeed computer"

definition sdqaCycles_1y :: Quantity where
  "sdqaCycles_1y = calcAlertSDQA_1y (num 600 * second) lsstWideAndFast1Year abe"

definition totalCycles_1y :: "Quantity option" where
  "totalCycles_1y = do {
     templateCycles \<leftarrow> templateCycles_1y;
     deepCoaddCycles \<leftarrow> deepCoaddCycles_1y;
     coaddProcessCycles \<leftarrow> coaddProcessCycles_1y;
     multiEpochCycles \<leftarrow> multiEpochCycles_1y;
     s1 \<leftarrow> add diffimCycles_1y templateCycles;
     s2 \<leftarrow> add s1 deepCoaddCycles;
     s3 \<leftarrow> add s2 coaddProcessCycles;
     s4 \<leftarrow> add s3 multiEpochCycles;
     add s4 sdqaCycles_1y
   }"

definition totalFlop_1y :: "Quantity option" where
  "totalFlop_1y = do { totalCycles \<leftarrow> totalCycles_1y; to totalCycles flop }"

definition finalTotal_1y :: "Quantity option" where
  "finalTotal_1y = do {
     totalFlop \<leftarrow> totalFlop_1y;
     to (totalFlop / computeTime lsstWideAndFast1Year) tflops
   }"

section \<open>The documented formula and the data-model invariants\<close>

text \<open>
  The coadd detection and measurement total as the specification words it, for comparison
  with the two notebooks: the detection and measurement times times the CCD count, the
  clock rate, the pixel density factor, the number of coadds per field and the field count,
  plus the merge term: the square of the number of coadds per field times the merge time
  constant over the square of the reference band count, times the clock rate and the
  field count.
\<close>

definition spec_coaddProcessCycles ::
  "Quantity \<Rightarrow> Quantity \<Rightarrow> Quantity \<Rightarrow> real \<Rightarrow> Telescope \<Rightarrow> Computer \<Rightarrow> CoaddParameters
     \<Rightarrow> Survey \<Rightarrow> Quantity option" where
  "spec_coaddProcessCycles detectTime measureTime mergeTimeConstant referenceBandCount
       telescope computer coaddParams' survey = do {
     detectPlusMeasure \<leftarrow> add detectTime measureTime;
     add (detectPlusMeasure * num (nCcds telescope) * clockSpeed computer *
          num (pixelDensityFactor coaddParams') * num (nFilters telescope + 1) *
          num (nFields survey))
         (num ((nFilters telescope + 1) ^ 2) * mergeTimeConstant / num (referenceBandCount ^ 2) *
          clockSpeed computer * num (nFields survey))
   }"

text \<open>
  The invariants of the parameter tables as the specification lists them, with every count
  non-negative. Neither notebook checks them; they are hypotheses of the monotonicity
  theorem only.
\<close>

definition valid_Telescope :: "Telescope \<Rightarrow> bool" where
  "valid_Telescope t = (0 < nCcds t \<and> 0 < nFilters t \<and> 0 < qvalue (fieldOfView t))"

definition valid_Survey :: "Survey \<Rightarrow> bool" where
  "valid_Survey s =
     (0 \<le> nVisits s \<and> 0 \<le> nEpochs s \<and> 0 \<le> nFields s \<and> 0 \<le> nStars s \<and>
      0 \<le> nOutOfPlaneStars s \<and> nOutOfPlaneStars s \<le> nStars s \<and> 0 \<le> nForcedSources s)"

definition valid_Computer :: "Computer \<Rightarrow> bool" where
  "valid_Computer c = (0 < qvalue (clockSpeed c) \<and> 0 < scale (qunit (clockSpeed c)))"

definition valid_CoaddParameters :: "CoaddParameters \<Rightarrow> bool" where
  "valid_CoaddParameters p =
     (1 \<le> pixelDensityFactor p \<and> 1 \<le> imageReuse p \<and> 0 \<le> deblendFactor p)"

definition valid_TemplateParameters :: "TemplateParameters \<Rightarrow> bool" where
  "valid_TemplateParameters p = (1 \<le> nTypes p \<and> 1 \<le> nVersions p \<and> 1 \<le> depth p)"

text \<open>
  One table is at most another when each of its scale parameters is: in particular when
  one parameter was increased and the others were kept.
\<close>

definition Telescope_le :: "Telescope \<Rightarrow> Telescope \<Rightarrow> bool" where
  "Telescope_le t t' = (nCcds t \<le> nCcds t' \<and> nFilters t \<le> nFilters t')"

definition CoaddParameters_le :: "CoaddParameters \<Rightarrow> CoaddParameters \<Rightarrow> bool" where
  "CoaddParameters_le p p' =
     (pixelDensityFactor p \<le> pixelDensityFactor p' \<and> imageReuse p \<le> imageReuse p' \<and>
      deblendFactor p \<le> deblendFactor p')"

definition TemplateParameters_le :: "TemplateParameters \<Rightarrow> TemplateParameters \<Rightarrow> bool" where
  "TemplateParameters_le p p' =
     (nTypes p \<le> nTypes p' \<and> nVersions p \<le> nVersions p' \<and> depth p \<le> depth p')"

text \<open>The survey parameters that the stages other than multi-epoch read.\<close>

definition Survey_le :: "Survey \<Rightarrow> Survey \<Rightarrow> bool" where
  "Survey_le s s' = (nVisits s \<le> nVisits s' \<and> nFields s \<le> nFields s')"

text \<open>
  The order in which the multi-epoch total grows: more forced sources and more stars out of
  the plane, but fewer stars and fewer epochs per object.
\<close>

definition Survey_le_multiEpoch :: "Survey \<Rightarrow> Survey \<Rightarrow> bool" where
  "Survey_le_multiEpoch s s' =
     (nForcedSources s \<le> nForcedSources s' \<and> nOutOfPlaneStars s \<le> nOutOfPlaneStars s' \<and>
      nStars s' \<le> nStars s \<and> nEpochs s' \<le> nEpochs s)"

text \<open>\<open>approx x y p\<close>: \<open>x\<close> is \<open>y\<close> within the relative tolerance \<open>p\<close>.\<close>

definition approx :: "real \<Rightarrow> real \<Rightarrow> real \<Rightarrow> bool" where
  "approx x y p = (\<bar>x - y\<bar> \<le> p * \<bar>y\<bar>)"

text \<open>
  Two stage totals are compared as quantities of the same unit; for a cell that adds
  quantities, both runs must return.
\<close>

definition cycles_le :: "Quantity \<Rightarrow> Quantity \<Rightarrow> bool" where
  "cycles_le a b = (qunit a = qunit b \<and> qvalue a \<le> qvalue b)"

definition returns_le :: "Quantity option \<Rightarrow> Quantity option \<Rightarrow> bool" where
  "returns_le x y =
     (case x of None \<Rightarrow> False
      | Some a \<Rightarrow> (case y of None \<Rightarrow> False | Some b \<Rightarrow> cycles_le a b))"

section \<open>Evaluating the notebooks\<close>

lemmas unit_defs =
  one_UnitBase_def times_UnitBase_def inverse_UnitBase_def divide_UnitBase_def
  one_Quantity_def times_Quantity_def inverse_Quantity_def divide_Quantity_def num_def
  convertible_def to_def add_def def_unit_def second_def week_def year_def degree_def
  flop_def cycle_def tflops_def

lemmas table_defs =
  Telescope_init_def Survey_init_def Computer_init_def CoaddParameters_init_def
  TemplateParameters_init_def lsst_def abe_def lsst_dev_def tiger3_def coaddParams_def
  templateParams_def

lemma cycle_eq: "cycle = Quantity 1 (Unit 2.72 1 0 0)"
  by (simp add: unit_defs)

lemma tflops_eq: "tflops = Quantity 1 (Unit (10 ^ 12) 1 (- 1) 0)"
  by (simp add: unit_defs)

lemma clockSpeed_abe: "clockSpeed abe = Quantity 2330000000 (qunit cycle / qunit second)"
  by (simp add: table_defs unit_defs)

lemma clockSpeed_lsst_dev: "clockSpeed lsst_dev = Quantity 3100000000 (qunit cycle / qunit second)"
  by (simp add: table_defs unit_defs)

lemma clockSpeed_tiger3: "clockSpeed tiger3 = Quantity 2800000000 (qunit cycle / qunit second)"
  by (simp add: table_defs unit_defs)

subsection \<open>Six months\<close>

lemma diffimCycles_6m_eq: "diffimCycles_6m = Quantity 4589756325000000000 (qunit cycle)"
  by (simp add: diffimCycles_6m_def calcDiffimCycles_6m_def lsstWideAndFastDR1_def
      table_defs unit_defs)

lemma templateCycles_6m_eq: "templateCycles_6m = Quantity 7822947580560000000 (qunit cycle)"
  by (simp add: templateCycles_6m_def calcTemplateCoadditionCycles_6m_def
      lsstWideAndFastDR1_def table_defs unit_defs)

lemma deepCoaddCycles_6m_eq: "deepCoaddCycles_6m = Quantity 18359025300000000000 (qunit cycle)"
  by (simp add: deepCoaddCycles_6m_def calcDeepCoadditionCycles_6m_def lsstWideAndFastDR1_def
      table_defs unit_defs)

lemma coaddProcessCycles_6m_eq:
  "coaddProcessCycles_6m = Some (Quantity 147368874585240000 (qunit cycle))"
  by (simp add: coaddProcessCycles_6m_def coaddSrcDetCycles_def coaddSrcMeasCycles_def
      calcCoaddProcessCycles_def lsstWideAndFastDR1_def table_defs unit_defs)

lemma multiEpochCycles_6m_eq:
  "multiEpochCycles_6m = Quantity 205352907637969920000 (qunit cycle)"
  by (simp add: multiEpochCycles_6m_def calcMultiEpochCycles_6m_def lsstWideAndFastDR1_def
      table_defs unit_defs)

lemma sdqaCycles_6m_eq: "sdqaCycles_6m = Quantity 192225000000000000 (qunit cycle)"
  by (simp add: sdqaCycles_6m_def calcAlertSDQA_6m_def lsstWideAndFastDR1_def
      table_defs unit_defs)

lemma totalCycles_6m_eq: "totalCycles_6m = Some (Quantity 236464230718115160000 (qunit cycle))"
  by (simp add: totalCycles_6m_def diffimCycles_6m_eq templateCycles_6m_eq
      deepCoaddCycles_6m_eq coaddProcessCycles_6m_eq multiEpochCycles_6m_eq sdqaCycles_6m_eq
      add_def to_def convertible_def cycle_eq)

lemma totalFlop_6m_eq: "totalFlop_6m = Some (Quantity 643182707553273235200 (qunit flop))"
  by (simp add: totalFlop_6m_def totalCycles_6m_eq cycle_eq flop_def to_def convertible_def)

lemma finalTotal_6m_eq:
  "finalTotal_6m = Some (Quantity (33499099351732981 / 283500000000000) (qunit tflops))"
  by (simp add: finalTotal_6m_def totalFlop_6m_eq lsstWideAndFastDR1_def table_defs unit_defs)

subsection \<open>One year\<close>

lemma diffimCycles_1y_eq: "diffimCycles_1y = Quantity 11278575000000000000 (qunit cycle)"
  by (simp add: diffimCycles_1y_def calcDiffimCycles_1y_def lsstWideAndFast1Year_def
      table_defs unit_defs)

lemma coaddCcdTime_eq: "coaddCcdTime = Some (Quantity (21917 / 3000) (qunit second))"
  by (simp add: coaddCcdTime_def makeTempExpTime_def assembleCoaddTime_def nCalexps_def
      hscToLsstScale_def unit_defs)

lemma templateCycles_1y_eq:
  "templateCycles_1y = Some (Quantity 906072976368000000 (qunit cycle))"
  by (simp add: templateCycles_1y_def coaddCcdTime_eq calcTemplateCoadditionCycles_1y_def
      lsstWideAndFast1Year_def table_defs unit_defs)

lemma deepCoaddCycles_1y_eq:
  "deepCoaddCycles_1y = Some (Quantity 3538916073000000000 (qunit cycle))"
  by (simp add: deepCoaddCycles_1y_def coaddCcdTime_eq calcDeepCoadditionCycles_1y_def
      lsstWideAndFast1Year_def table_defs unit_defs)

lemma detectTimePerCcd_eq: "detectTimePerCcd = Quantity (299801 / 39375) (qunit second)"
  by (simp add: detectTimePerCcd_def coaddToCcd_def unit_defs)

lemma measureTimePerCcd_eq: "measureTimePerCcd = Quantity (192001417 / 1653750) (qunit second)"
  by (simp add: measureTimePerCcd_def coaddToCcd_def unit_defs)

lemma coaddProcessCycles_1y_eq:
  "coaddProcessCycles_1y = Some (Quantity 1321808076264480000 (qunit cycle))"
  by (simp add: coaddProcessCycles_1y_def coaddProcessCycles_of_def coaddMergeCycles_of_def
      mergeTime_of_def coaddSrcDetAndMeasCycles_of_def detectTimePerCcd_eq measureTimePerCcd_eq
      lsstWideAndFast1Year_def table_defs unit_defs)

lemma timePerObject_eq: "timePerObject = Some (Quantity (430137 / 3661000) (qunit second))"
  by (simp add: timePerObject_def numSources_def unit_defs)

lemma multiEpochCycles_1y_eq:
  "multiEpochCycles_1y = Some (Quantity (2265179210769600000000000 / 3661) (qunit cycle))"
  by (simp add: multiEpochCycles_1y_def timePerObject_eq calcMultiEpochCycles_1y_def
      lsstWideAndFast1Year_def table_defs unit_defs)

lemma sdqaCycles_1y_eq: "sdqaCycles_1y = Quantity 384450000000000000 (qunit cycle)"
  by (simp add: sdqaCycles_1y_def calcAlertSDQA_1y_def lsstWideAndFast1Year_def
      table_defs unit_defs)

lemma totalCycles_1y_eq:
  "totalCycles_1y = Some (Quantity (2328989789571540509280000 / 3661) (qunit cycle))"
  by (simp add: totalCycles_1y_def diffimCycles_1y_eq templateCycles_1y_eq
      deepCoaddCycles_1y_eq coaddProcessCycles_1y_eq multiEpochCycles_1y_eq sdqaCycles_1y_eq
      add_def to_def convertible_def cycle_eq)

lemma totalFlop_1y_eq:
  "totalFlop_1y = Some (Quantity (6334852227634590185241600 / 3661) (qunit flop))"
  by (simp add: totalFlop_1y_def totalCycles_1y_eq cycle_eq flop_def to_def convertible_def)

lemma finalTotal_1y_eq:
  "finalTotal_1y =
     Some (Quantity (82485055047325393037 / 259473375000000000) (qunit tflops))"
  by (simp add: finalTotal_1y_def totalFlop_1y_eq lsstWideAndFast1Year_def table_defs unit_defs)

section \<open>The stage functions in closed form\<close>

lemmas valid_defs = valid_Telescope_def valid_Survey_def valid_Computer_def
  valid_CoaddParameters_def valid_TemplateParameters_def

lemmas le_defs = Telescope_le_def Survey_le_def CoaddParameters_le_def TemplateParameters_le_def

lemma add_same_unit:
  assumes "scale (qunit a) \<noteq> 0" and "qunit b = qunit a"
  shows "add a b = Some (Quantity (qvalue a + qvalue b) (qunit a))"
  using assms by (simp add: add_def to_def convertible_def)

lemma calcDiffimCycles_6m_eq:
  "calcDiffimCycles_6m t tel s c =
     Quantity (qvalue t * nCcds tel * nVisits s * qvalue (clockSpeed c))
              (qunit t * qunit (clockSpeed c))"
  by (simp add: calcDiffimCycles_6m_def unit_defs)

lemma calcTemplateCoadditionCycles_6m_eq:
  "calcTemplateCoadditionCycles_6m t cp tp tel s c =
     Quantity (qvalue t * nCcds tel * pixelDensityFactor cp * nFields s * nTypes tp *
               nVersions tp * depth tp * qvalue (clockSpeed c))
              (qunit t * qunit (clockSpeed c))"
  by (simp add: calcTemplateCoadditionCycles_6m_def unit_defs)

lemma calcDeepCoadditionCycles_6m_eq:
  "calcDeepCoadditionCycles_6m t cp tel s c =
     Quantity (qvalue t * nCcds tel * qvalue (clockSpeed c) * imageReuse cp * nVisits s)
              (qunit t * qunit (clockSpeed c))"
  by (simp add: calcDeepCoadditionCycles_6m_def unit_defs)

lemma calcCoaddProcessCycles_eq:
  "calcCoaddProcessCycles t cp tel s c =
     Quantity (qvalue t * nCcds tel * qvalue (clockSpeed c) * pixelDensityFactor cp *
               (deblendFactor cp + 1) * (nFilters tel + 1) * nFields s)
              (qunit t * qunit (clockSpeed c))"
  by (simp add: calcCoaddProcessCycles_def Let_def unit_defs)

lemma calcMultiEpochCycles_6m_eq:
  "calcMultiEpochCycles_6m t s c =
     Quantity ((nForcedSources s - (nStars s - nOutOfPlaneStars s) * nEpochs s) *
               qvalue t * qvalue (clockSpeed c)) (qunit t * qunit (clockSpeed c))"
  by (simp add: calcMultiEpochCycles_6m_def Let_def unit_defs)

lemma calcAlertSDQA_6m_eq:
  "calcAlertSDQA_6m t s c =
     Quantity (qvalue t * nVisits s * qvalue (clockSpeed c)) (qunit t * qunit (clockSpeed c))"
  by (simp add: calcAlertSDQA_6m_def unit_defs)

lemma calcDiffimCycles_6m_mono:
  assumes "0 < qvalue t" "valid_Telescope tel" "valid_Survey s" "valid_Computer c"
    and "Telescope_le tel tel'" "Survey_le s s'"
  shows "cycles_le (calcDiffimCycles_6m t tel s c) (calcDiffimCycles_6m t tel' s' c)"
proof -
  have "qvalue t * nCcds tel * nVisits s * qvalue (clockSpeed c)
      \<le> qvalue t * nCcds tel' * nVisits s' * qvalue (clockSpeed c)"
    using assms
    by (intro mult_mono mult_nonneg_nonneg) (simp_all add: valid_defs le_defs)
  then show ?thesis
    by (simp add: cycles_le_def calcDiffimCycles_6m_eq)
qed

lemma calcTemplateCoadditionCycles_6m_mono:
  assumes "0 < qvalue t" "valid_Telescope tel" "valid_Survey s" "valid_Computer c"
    and "valid_CoaddParameters cp" "valid_TemplateParameters tp"
    and "Telescope_le tel tel'" "Survey_le s s'" "CoaddParameters_le cp cp'"
    and "TemplateParameters_le tp tp'"
  shows "cycles_le (calcTemplateCoadditionCycles_6m t cp tp tel s c)
           (calcTemplateCoadditionCycles_6m t cp' tp' tel' s' c)"
proof -
  have "qvalue t * nCcds tel * pixelDensityFactor cp * nFields s * nTypes tp *
          nVersions tp * depth tp * qvalue (clockSpeed c)
      \<le> qvalue t * nCcds tel' * pixelDensityFactor cp' * nFields s' * nTypes tp' *
          nVersions tp' * depth tp' * qvalue (clockSpeed c)"
    using assms
    by (intro mult_mono mult_nonneg_nonneg) (simp_all add: valid_defs le_defs)
  then show ?thesis
    by (simp add: cycles_le_def calcTemplateCoadditionCycles_6m_eq)
qed

lemma calcDeepCoadditionCycles_6m_mono:
  assumes "0 < qvalue t" "valid_Telescope tel" "valid_Survey s" "valid_Computer c"
    and "valid_CoaddParameters cp"
    and "Telescope_le tel tel'" "Survey_le s s'" "CoaddParameters_le cp cp'"
  shows "cycles_le (calcDeepCoadditionCycles_6m t cp tel s c)
           (calcDeepCoadditionCycles_6m t cp' tel' s' c)"
proof -
  have "qvalue t * nCcds tel * qvalue (clockSpeed c) * imageReuse cp * nVisits s
      \<le> qvalue t * nCcds tel' * qvalue (clockSpeed c) * imageReuse cp' * nVisits s'"
    using assms
    by (intro mult_mono mult_nonneg_nonneg) (simp_all add: valid_defs le_defs)
  then show ?thesis
    by (simp add: cycles_le_def calcDeepCoadditionCycles_6m_eq)
qed

lemma coadd_product_mono:
  assumes "0 < qvalue t" "valid_Telescope tel" "valid_Survey s" "valid_Computer c"
    and "valid_CoaddParameters cp"
    and "Telescope_le tel tel'" "Survey_le s s'" "CoaddParameters_le cp cp'"
  shows "qvalue t * nCcds tel * qvalue (clockSpeed c) * pixelDensityFactor cp *
          (deblendFactor cp + 1) * (nFilters tel + 1) * nFields s
      \<le> qvalue t * nCcds tel' * qvalue (clockSpeed c) * pixelDensityFactor cp' *
          (deblendFactor cp' + 1) * (nFilters tel' + 1) * nFields s'"
  using assms
  by (intro mult_mono mult_nonneg_nonneg) (simp_all add: valid_defs le_defs)

lemma calcCoaddProcessCycles_mono:
  assumes "0 < qvalue t" "valid_Telescope tel" "valid_Survey s" "valid_Computer c"
    and "valid_CoaddParameters cp"
    and "Telescope_le tel tel'" "Survey_le s s'" "CoaddParameters_le cp cp'"
  shows "cycles_le (calcCoaddProcessCycles t cp tel s c) (calcCoaddProcessCycles t cp' tel' s' c)"
  using coadd_product_mono [OF assms]
  by (simp add: cycles_le_def calcCoaddProcessCycles_eq)

lemma calcAlertSDQA_6m_mono:
  assumes "0 < qvalue t" "valid_Survey s" "valid_Computer c" "Survey_le s s'"
  shows "cycles_le (calcAlertSDQA_6m t s c) (calcAlertSDQA_6m t s' c)"
proof -
  have "qvalue t * nVisits s * qvalue (clockSpeed c) \<le> qvalue t * nVisits s' * qvalue (clockSpeed c)"
    using assms
    by (intro mult_mono mult_nonneg_nonneg) (simp_all add: valid_defs le_defs)
  then show ?thesis
    by (simp add: cycles_le_def calcAlertSDQA_6m_eq)
qed

lemma calcMultiEpochCycles_6m_mono:
  assumes "0 < qvalue t" "valid_Survey s" "valid_Survey s'" "valid_Computer c"
    and "Survey_le_multiEpoch s s'"
  shows "cycles_le (calcMultiEpochCycles_6m t s c) (calcMultiEpochCycles_6m t s' c)"
proof -
  have "(nStars s' - nOutOfPlaneStars s') * nEpochs s' \<le> (nStars s - nOutOfPlaneStars s) * nEpochs s"
    using assms
    by (intro mult_mono) (simp_all add: valid_defs Survey_le_multiEpoch_def)
  then have "nForcedSources s - (nStars s - nOutOfPlaneStars s) * nEpochs s
      \<le> nForcedSources s' - (nStars s' - nOutOfPlaneStars s') * nEpochs s'"
    using assms(5) by (simp add: Survey_le_multiEpoch_def)
  then have "(nForcedSources s - (nStars s - nOutOfPlaneStars s) * nEpochs s) * qvalue t * qvalue (clockSpeed c)
      \<le> (nForcedSources s' - (nStars s' - nOutOfPlaneStars s') * nEpochs s') * qvalue t * qvalue (clockSpeed c)"
    using assms(1,4) by (intro mult_right_mono) (simp_all add: valid_defs)
  then show ?thesis
    by (simp add: cycles_le_def calcMultiEpochCycles_6m_eq)
qed

lemma coaddProcess_6m_sum_eq:
  assumes "qunit td = qunit second" "qunit tm = qunit second" "valid_Computer c"
  shows "add (calcCoaddProcessCycles td cp tel s c) (calcCoaddProcessCycles tm cp tel s c) =
     Some (Quantity (qvalue td * nCcds tel * qvalue (clockSpeed c) * pixelDensityFactor cp *
                       (deblendFactor cp + 1) * (nFilters tel + 1) * nFields s +
                     qvalue tm * nCcds tel * qvalue (clockSpeed c) * pixelDensityFactor cp *
                       (deblendFactor cp + 1) * (nFilters tel + 1) * nFields s)
                    (qunit second * qunit (clockSpeed c)))"
  using assms
  by (simp add: calcCoaddProcessCycles_eq add_same_unit valid_Computer_def
      times_UnitBase_def second_def)

lemma coaddProcess_6m_sum_mono:
  assumes "0 < qvalue td" "0 < qvalue tm" "qunit td = qunit second" "qunit tm = qunit second"
    and "valid_Telescope tel" "valid_Survey s" "valid_Computer c" "valid_CoaddParameters cp"
    and "Telescope_le tel tel'" "Survey_le s s'" "CoaddParameters_le cp cp'"
  shows "returns_le
           (add (calcCoaddProcessCycles td cp tel s c) (calcCoaddProcessCycles tm cp tel s c))
           (add (calcCoaddProcessCycles td cp' tel' s' c) (calcCoaddProcessCycles tm cp' tel' s' c))"
proof -
  note sum = add_mono [OF coadd_product_mono [OF assms(1) assms(5-11)]
                          coadd_product_mono [OF assms(2) assms(5-11)]]
  show ?thesis
    unfolding coaddProcess_6m_sum_eq [OF assms(3,4,7)] returns_le_def cycles_le_def
    using sum by simp
qed

lemma coaddProcessCycles_of_eq:
  assumes "qunit td = qunit second" "qunit tm = qunit second" "valid_Computer c"
  shows "coaddProcessCycles_of td tm tel c cp s =
     Some (Quantity ((nFilters tel + 1) ^ 2 * 12.798 / 3 ^ 2 * qvalue (clockSpeed c) * nFields s +
                     (qvalue td + qvalue tm) * nCcds tel * qvalue (clockSpeed c) *
                       pixelDensityFactor cp * (nFilters tel + 1) * nFields s)
                    (qunit second * qunit (clockSpeed c)))"
proof -
  have sum: "add td tm = Some (Quantity (qvalue td + qvalue tm) (qunit second))"
    using assms(1,2) by (simp add: add_same_unit second_def)
  have merge: "coaddMergeCycles_of tel c s =
      Quantity ((nFilters tel + 1) ^ 2 * 12.798 / 3 ^ 2 * qvalue (clockSpeed c) * nFields s)
               (qunit second * qunit (clockSpeed c))"
    by (simp add: coaddMergeCycles_of_def mergeTime_of_def unit_defs)
  have detmeas: "coaddSrcDetAndMeasCycles_of (Quantity (qvalue td + qvalue tm) (qunit second)) tel c cp s =
      Quantity ((qvalue td + qvalue tm) * nCcds tel * qvalue (clockSpeed c) *
                  pixelDensityFactor cp * (nFilters tel + 1) * nFields s)
               (qunit second * qunit (clockSpeed c))"
    by (simp add: coaddSrcDetAndMeasCycles_of_def unit_defs)
  have nonzero: "scale (qunit second * qunit (clockSpeed c)) \<noteq> 0"
    using assms(3) by (simp add: valid_Computer_def times_UnitBase_def second_def)
  show ?thesis
    by (simp add: coaddProcessCycles_of_def sum merge detmeas add_same_unit nonzero)
qed

lemma coaddProcessCycles_of_mono:
  assumes "0 < qvalue td" "0 < qvalue tm" "qunit td = qunit second" "qunit tm = qunit second"
    and "valid_Telescope tel" "valid_Survey s" "valid_Computer c" "valid_CoaddParameters cp"
    and "Telescope_le tel tel'" "Survey_le s s'" "CoaddParameters_le cp cp'"
  shows "returns_le (coaddProcessCycles_of td tm tel c cp s)
           (coaddProcessCycles_of td tm tel' c cp' s')"
proof -
  have square: "(nFilters tel + 1) ^ 2 \<le> (nFilters tel' + 1) ^ 2"
    using assms(5,9) by (intro power_mono) (simp_all add: valid_defs le_defs)
  have merge: "(nFilters tel + 1) ^ 2 * 12.798 / 3 ^ 2 * qvalue (clockSpeed c) * nFields s
      \<le> (nFilters tel' + 1) ^ 2 * 12.798 / 3 ^ 2 * qvalue (clockSpeed c) * nFields s'"
    using assms square
    by (intro mult_mono mult_nonneg_nonneg divide_right_mono)
       (simp_all add: valid_defs le_defs)
  have detmeas: "(qvalue td + qvalue tm) * nCcds tel * qvalue (clockSpeed c) *
        pixelDensityFactor cp * (nFilters tel + 1) * nFields s
      \<le> (qvalue td + qvalue tm) * nCcds tel' * qvalue (clockSpeed c) *
        pixelDensityFactor cp' * (nFilters tel' + 1) * nFields s'"
    using assms
    by (intro mult_mono mult_nonneg_nonneg) (simp_all add: valid_defs le_defs)
  note sum = add_mono [OF merge detmeas]
  show ?thesis
    unfolding coaddProcessCycles_of_eq [OF assms(3,4,7)] returns_le_def cycles_le_def
    using sum by simp
qed

lemma fieldOfView_lsst:
  "fieldOfView lsst = Quantity (pi * (1.75 * 1.75)) (Unit (pi / 180 * (pi / 180)) 0 0 2)"
  by (simp add: table_defs unit_defs numeral_2_eq_2)

lemma calcDiffimCycles_same: "calcDiffimCycles_1y = calcDiffimCycles_6m"
  by (intro ext) (simp add: calcDiffimCycles_6m_def calcDiffimCycles_1y_def)

lemma calcTemplateCoadditionCycles_same:
  "calcTemplateCoadditionCycles_1y = calcTemplateCoadditionCycles_6m"
  by (intro ext)
     (simp add: calcTemplateCoadditionCycles_6m_def calcTemplateCoadditionCycles_1y_def)

lemma calcDeepCoadditionCycles_same: "calcDeepCoadditionCycles_1y = calcDeepCoadditionCycles_6m"
  by (intro ext) (simp add: calcDeepCoadditionCycles_6m_def calcDeepCoadditionCycles_1y_def)

lemma calcMultiEpochCycles_same: "calcMultiEpochCycles_1y = calcMultiEpochCycles_6m"
  by (intro ext) (simp add: calcMultiEpochCycles_6m_def calcMultiEpochCycles_1y_def)

lemma calcAlertSDQA_same: "calcAlertSDQA_1y = calcAlertSDQA_6m"
  by (intro ext) (simp add: calcAlertSDQA_6m_def calcAlertSDQA_1y_def)

section \<open>The scenario values\<close>

text \<open>
  C1. In the six-month notebook every cell evaluates without a unit error; the total is the
  sum of the six stage totals, the total in FLOP is 2.72 times the total in cycles, and the
  final figure is that total divided by the nine weeks of the compute window (5443200
  seconds), in units of 10^12 FLOP per second: 118.16 TFLOPS within one percent.
\<close>

theorem finalTotal_6m_value:
  "coaddProcessCycles_6m \<noteq> None
   \<and> totalCycles_6m =
     Some (Quantity (qvalue diffimCycles_6m + qvalue templateCycles_6m +
                     qvalue deepCoaddCycles_6m + qvalue (the coaddProcessCycles_6m) +
                     qvalue multiEpochCycles_6m + qvalue sdqaCycles_6m) (qunit cycle))
   \<and> totalFlop_6m = Some (Quantity (2.72 * qvalue (the totalCycles_6m)) (qunit flop))
   \<and> computeTime lsstWideAndFastDR1 = Quantity 9 (qunit week)
   \<and> finalTotal_6m =
       Some (Quantity (qvalue (the totalFlop_6m) / (9 * 604800) / 10 ^ 12) (qunit tflops))
   \<and> approx (qvalue (the finalTotal_6m)) 118.16 0.01"
proof -
  have sum: "totalCycles_6m =
     Some (Quantity (qvalue diffimCycles_6m + qvalue templateCycles_6m +
                     qvalue deepCoaddCycles_6m + qvalue (the coaddProcessCycles_6m) +
                     qvalue multiEpochCycles_6m + qvalue sdqaCycles_6m) (qunit cycle))"
    by (simp add: totalCycles_6m_eq diffimCycles_6m_eq templateCycles_6m_eq
        deepCoaddCycles_6m_eq coaddProcessCycles_6m_eq multiEpochCycles_6m_eq sdqaCycles_6m_eq)
  have conv: "totalFlop_6m = Some (Quantity (2.72 * qvalue (the totalCycles_6m)) (qunit flop))"
    by (simp add: totalFlop_6m_eq totalCycles_6m_eq)
  have window: "computeTime lsstWideAndFastDR1 = Quantity 9 (qunit week)"
    by (simp add: lsstWideAndFastDR1_def table_defs unit_defs)
  have rate: "finalTotal_6m =
       Some (Quantity (qvalue (the totalFlop_6m) / (9 * 604800) / 10 ^ 12) (qunit tflops))"
    by (simp add: finalTotal_6m_eq totalFlop_6m_eq)
  have near: "approx (qvalue (the finalTotal_6m)) 118.16 0.01"
    by (simp add: finalTotal_6m_eq approx_def)
  have coadd: "coaddProcessCycles_6m \<noteq> None"
    by (simp add: coaddProcessCycles_6m_eq)
  show ?thesis
    by (intro conjI coadd sum conv window rate near)
qed

text \<open>
  C2. With the six-month constants (189 CCDs, 137500 visits, 2.33e9 cycles per second on
  \<open>abe\<close>, 75.8 seconds per CCD) the difference imaging stage returns the product of the
  time per CCD, the CCD count, the visit count and the clock rate, in cycles, which is
  4.5898e18 within 0.1 percent.
\<close>

theorem diffimCycles_6m_value:
  "nCcds lsst = 189 \<and> nVisits lsstWideAndFastDR1 = 137500
   \<and> clockSpeed abe = Quantity 2330000000 (qunit cycle / qunit second)
   \<and> diffimCycles_6m = calcDiffimCycles_6m (Quantity 75.8 (qunit second)) lsst lsstWideAndFastDR1 abe
   \<and> diffimCycles_6m = Quantity (75.8 * 189 * 137500 * 2330000000) (qunit cycle)
   \<and> approx (qvalue diffimCycles_6m) (4.5898 * 10 ^ 18) 0.001"
proof -
  have ccds: "nCcds lsst = 189" and visits: "nVisits lsstWideAndFastDR1 = 137500"
    by (simp_all add: lsstWideAndFastDR1_def table_defs)
  have call: "diffimCycles_6m =
      calcDiffimCycles_6m (Quantity 75.8 (qunit second)) lsst lsstWideAndFastDR1 abe"
    by (simp add: diffimCycles_6m_def unit_defs)
  have prod: "diffimCycles_6m = Quantity (75.8 * 189 * 137500 * 2330000000) (qunit cycle)"
    by (simp add: diffimCycles_6m_eq)
  have near: "approx (qvalue diffimCycles_6m) (4.5898 * 10 ^ 18) 0.001"
    by (simp add: diffimCycles_6m_eq approx_def)
  show ?thesis
    by (intro conjI ccds visits clockSpeed_abe call prod near)
qed

text \<open>
  C3. With the one-year constants (275000 visits, 3.1e9 cycles per second on \<open>lsst_dev\<close>,
  70 seconds per CCD) the difference imaging stage returns 1.1279e19 cycles within 0.1
  percent, and the final figure of the one-year notebook is 317.89 TFLOPS within one
  percent.
\<close>

theorem one_year_values:
  "nVisits lsstWideAndFast1Year = 275000
   \<and> clockSpeed lsst_dev = Quantity 3100000000 (qunit cycle / qunit second)
   \<and> diffimCycles_1y = calcDiffimCycles_1y (Quantity 70 (qunit second)) lsst lsstWideAndFast1Year lsst_dev
   \<and> qunit diffimCycles_1y = qunit cycle
   \<and> approx (qvalue diffimCycles_1y) (1.1279 * 10 ^ 19) 0.001
   \<and> (case finalTotal_1y of None \<Rightarrow> False
       | Some q \<Rightarrow> qunit q = qunit tflops \<and> approx (qvalue q) 317.89 0.01)"
proof -
  have visits: "nVisits lsstWideAndFast1Year = 275000"
    by (simp add: lsstWideAndFast1Year_def table_defs)
  have call: "diffimCycles_1y =
      calcDiffimCycles_1y (Quantity 70 (qunit second)) lsst lsstWideAndFast1Year lsst_dev"
    by (simp add: diffimCycles_1y_def unit_defs)
  have cycles: "qunit diffimCycles_1y = qunit cycle"
    by (simp add: diffimCycles_1y_eq)
  have near: "approx (qvalue diffimCycles_1y) (1.1279 * 10 ^ 19) 0.001"
    by (simp add: diffimCycles_1y_eq approx_def)
  have final: "case finalTotal_1y of None \<Rightarrow> False
       | Some q \<Rightarrow> qunit q = qunit tflops \<and> approx (qvalue q) 317.89 0.01"
    by (simp add: finalTotal_1y_eq approx_def)
  show ?thesis
    by (intro conjI visits clockSpeed_lsst_dev call cycles near final)
qed

section \<open>The coadd detection and measurement stage\<close>

text \<open>
  C4, as stated, fails on the six-month notebook: with its own times (6.19 and 10.50 seconds)
  and tables, the stage total is not the documented formula, neither with the merge time
  that the one-year notebook measured (12.798 seconds for 3 bands) nor with no merge time.
\<close>

theorem coaddProcess_6m_not_documented_formula:
  "coaddProcessCycles_6m \<noteq>
     spec_coaddProcessCycles (num 6.19 * second) (num 10.50 * second) (num 12.798 * second) 3
       lsst abe coaddParams lsstWideAndFastDR1
   \<and> coaddProcessCycles_6m \<noteq>
     spec_coaddProcessCycles (num 6.19 * second) (num 10.50 * second) (num 0 * second) 3
       lsst abe coaddParams lsstWideAndFastDR1"
  by (simp add: coaddProcessCycles_6m_eq spec_coaddProcessCycles_def lsstWideAndFastDR1_def
      table_defs unit_defs)

text \<open>
  C4, amended. In the one-year notebook the stage total is the documented formula, with the
  merge time constant 12.798 seconds and 3 reference bands. In the six-month notebook it is
  the detection and measurement times (6.19 and 10.50 seconds) times the CCD count, the
  clock rate, the pixel density factor, the deblend factor plus one, the number of coadds
  per field and the field count; there is no merge term.
\<close>

theorem coaddProcess_formulas:
  "coaddProcessCycles_1y =
     spec_coaddProcessCycles detectTimePerCcd measureTimePerCcd (num 12.798 * second) 3
       lsst lsst_dev coaddParams lsstWideAndFast1Year
   \<and> coaddProcessCycles_1y \<noteq> None
   \<and> coaddProcessCycles_6m =
       Some (Quantity ((6.19 + 10.50) * nCcds lsst * qvalue (clockSpeed abe) *
                       pixelDensityFactor coaddParams * (deblendFactor coaddParams + 1) *
                       (nFilters lsst + 1) * nFields lsstWideAndFastDR1) (qunit cycle))"
proof -
  have one_year: "coaddProcessCycles_1y =
     spec_coaddProcessCycles detectTimePerCcd measureTimePerCcd (num 12.798 * second) 3
       lsst lsst_dev coaddParams lsstWideAndFast1Year"
    by (simp add: coaddProcessCycles_1y_eq spec_coaddProcessCycles_def detectTimePerCcd_eq
        measureTimePerCcd_eq lsstWideAndFast1Year_def table_defs unit_defs)
  have returns: "coaddProcessCycles_1y \<noteq> None"
    by (simp add: coaddProcessCycles_1y_eq)
  have six_months: "coaddProcessCycles_6m =
       Some (Quantity ((6.19 + 10.50) * nCcds lsst * qvalue (clockSpeed abe) *
                       pixelDensityFactor coaddParams * (deblendFactor coaddParams + 1) *
                       (nFilters lsst + 1) * nFields lsstWideAndFastDR1) (qunit cycle))"
    by (simp add: coaddProcessCycles_6m_eq lsstWideAndFastDR1_def table_defs unit_defs)
  show ?thesis
    by (intro conjI one_year returns six_months)
qed

section \<open>The two notebooks side by side\<close>

text \<open>
  C5, as stated, fails for the coadd detection and measurement stage: on the same inputs
  (one second for detection and for measurement, the shared tables, the one-year survey,
  \<open>lsst_dev\<close>) the six-month notebook's formula, \<open>calcCoaddProcessCycles\<close> called for
  detection and for measurement and summed, and the one-year notebook's cell give
  different totals.
\<close>

theorem coadd_stage_formulas_differ:
  "add (calcCoaddProcessCycles (num 1 * second) coaddParams lsst lsstWideAndFast1Year lsst_dev)
       (calcCoaddProcessCycles (num 1 * second) coaddParams lsst lsstWideAndFast1Year lsst_dev)
     = Some (Quantity 23495527440000000 (qunit cycle))
   \<and> coaddProcessCycles_of (num 1 * second) (num 1 * second) lsst lsst_dev coaddParams
       lsstWideAndFast1Year
     = Some (Quantity 21922039087200000 (qunit cycle))
   \<and> add (calcCoaddProcessCycles (num 1 * second) coaddParams lsst lsstWideAndFast1Year lsst_dev)
         (calcCoaddProcessCycles (num 1 * second) coaddParams lsst lsstWideAndFast1Year lsst_dev)
     \<noteq> coaddProcessCycles_of (num 1 * second) (num 1 * second) lsst lsst_dev coaddParams
         lsstWideAndFast1Year"
  by (simp add: calcCoaddProcessCycles_def coaddProcessCycles_of_def coaddMergeCycles_of_def
      mergeTime_of_def coaddSrcDetAndMeasCycles_of_def lsstWideAndFast1Year_def
      table_defs unit_defs)

text \<open>
  C5, amended. The two notebooks define the same function for five of the six stages:
  difference imaging, template coaddition, deep coaddition, multi-epoch characterization
  and alert SDQA. (The sixth, coadd detection and measurement, is computed by the two
  different formulas of C4.)
\<close>

theorem shared_stage_formulas:
  "calcDiffimCycles_6m = calcDiffimCycles_1y
   \<and> calcTemplateCoadditionCycles_6m = calcTemplateCoadditionCycles_1y
   \<and> calcDeepCoadditionCycles_6m = calcDeepCoadditionCycles_1y
   \<and> calcMultiEpochCycles_6m = calcMultiEpochCycles_1y
   \<and> calcAlertSDQA_6m = calcAlertSDQA_1y"
  by (simp add: calcDiffimCycles_same calcTemplateCoadditionCycles_same
      calcDeepCoadditionCycles_same calcMultiEpochCycles_same calcAlertSDQA_same)

section \<open>Inconsistent surveys\<close>

text \<open>
  C6, as stated, fails: for the survey with 10 stars, none of them out of the plane, one
  epoch per object and 5 forced sources, the out-of-plane forced source count is -5, and
  the multi-epoch stage (one second per object, on \<open>lsst_dev\<close>) returns -1.55e10 cycles
  in both notebooks.
\<close>

theorem multiEpoch_negative_total:
  "nForcedSources (Survey_init year 1 1 1 10 0 5 (num 9 * week))
     - (nStars (Survey_init year 1 1 1 10 0 5 (num 9 * week))
        - nOutOfPlaneStars (Survey_init year 1 1 1 10 0 5 (num 9 * week)))
       * nEpochs (Survey_init year 1 1 1 10 0 5 (num 9 * week)) = - 5
   \<and> calcMultiEpochCycles_6m (num 1 * second) (Survey_init year 1 1 1 10 0 5 (num 9 * week)) lsst_dev
       = Quantity (- 15500000000) (qunit cycle)
   \<and> calcMultiEpochCycles_1y (num 1 * second) (Survey_init year 1 1 1 10 0 5 (num 9 * week)) lsst_dev
       = Quantity (- 15500000000) (qunit cycle)"
  by (simp add: calcMultiEpochCycles_6m_def calcMultiEpochCycles_1y_def table_defs unit_defs)

text \<open>
  C6, amended. The multi-epoch stage makes no check: for every survey whose out-of-plane
  forced source count is negative it returns that count times the time per object times
  the clock rate, which is a negative total when the time and the clock rate are positive.
  Both notebooks do so.
\<close>

theorem multiEpoch_unchecked:
  assumes "nForcedSources survey - (nStars survey - nOutOfPlaneStars survey) * nEpochs survey < 0"
    and "0 < qvalue t" and "0 < qvalue (clockSpeed computer)"
  shows "calcMultiEpochCycles_6m t survey computer =
           Quantity ((nForcedSources survey
                      - (nStars survey - nOutOfPlaneStars survey) * nEpochs survey)
                     * qvalue t * qvalue (clockSpeed computer))
                    (qunit t * qunit (clockSpeed computer))
         \<and> qvalue (calcMultiEpochCycles_6m t survey computer) < 0
         \<and> calcMultiEpochCycles_1y t survey computer = calcMultiEpochCycles_6m t survey computer"
proof -
  have "(nForcedSources survey - (nStars survey - nOutOfPlaneStars survey) * nEpochs survey)
          * (qvalue t * qvalue (clockSpeed computer)) < 0"
    using assms by (intro mult_neg_pos mult_pos_pos)
  then show ?thesis
    by (simp add: calcMultiEpochCycles_6m_eq calcMultiEpochCycles_same mult.assoc)
qed

theorem multiEpoch_unchecked_witness:
  "qvalue (calcMultiEpochCycles_6m (num 1 * second)
             (Survey_init year 1 1 1 10 0 5 (num 9 * week)) lsst_dev) < 0"
proof -
  have "nForcedSources (Survey_init year 1 1 1 10 0 5 (num 9 * week))
     - (nStars (Survey_init year 1 1 1 10 0 5 (num 9 * week))
        - nOutOfPlaneStars (Survey_init year 1 1 1 10 0 5 (num 9 * week)))
       * nEpochs (Survey_init year 1 1 1 10 0 5 (num 9 * week)) < 0"
    by (simp add: Survey_init_def)
  moreover have "0 < qvalue (num 1 * second)"
    by (simp add: unit_defs)
  moreover have "0 < qvalue (clockSpeed lsst_dev)"
    by (simp add: clockSpeed_lsst_dev)
  ultimately show ?thesis
    using multiEpoch_unchecked [of "Survey_init year 1 1 1 10 0 5 (num 9 * week)"
        "num 1 * second" lsst_dev]
    by blast
qed

text \<open>
  C7, as stated, fails: the constructor returns a survey with one star and two stars out of
  the plane, and the multi-epoch stage is evaluated on it (the count of objects in the
  plane is then -1).
\<close>

theorem Survey_init_accepts_excess_out_of_plane_stars:
  "nStars (Survey_init year 1 1 1 1 2 0 (num 9 * week)) = 1
   \<and> nOutOfPlaneStars (Survey_init year 1 1 1 1 2 0 (num 9 * week)) = 2
   \<and> calcMultiEpochCycles_6m (num 1 * second) (Survey_init year 1 1 1 1 2 0 (num 9 * week)) lsst_dev
       = Quantity 3100000000 (qunit cycle)"
  by (simp add: calcMultiEpochCycles_6m_def table_defs unit_defs)

text \<open>
  C7, amended. Constructing a survey never fails: the constructor stores its arguments as
  they are, whatever the star counts, and on the survey it returns the multi-epoch stage
  evaluates its formula on those arguments.
\<close>

theorem Survey_init_stores_arguments:
  "Survey_init d v e f s p fs w =
     \<lparr>duration = d, nVisits = v, nEpochs = e, nFields = f, nStars = s,
      nOutOfPlaneStars = p, nForcedSources = fs, computeTime = w\<rparr>
   \<and> calcMultiEpochCycles_6m t (Survey_init d v e f s p fs w) c =
       num (fs - (s - p) * e) * t * clockSpeed c
   \<and> calcMultiEpochCycles_1y t (Survey_init d v e f s p fs w) c =
       num (fs - (s - p) * e) * t * clockSpeed c"
  by (simp add: Survey_init_def calcMultiEpochCycles_6m_def calcMultiEpochCycles_1y_def)

section \<open>Monotonicity in the scale parameters\<close>

text \<open>
  C8, as stated, fails for the multi-epoch stage: the six-month survey satisfies the
  invariants, and so does the same survey with one more star (14706186099 instead of
  14706186098, everything else kept), but the multi-epoch total drops from
  205352907637969920000 to 205352907622256640000 cycles.
\<close>

theorem multiEpoch_decreases_with_nStars:
  "valid_Survey lsstWideAndFastDR1
   \<and> valid_Survey (Survey_init (num 0.5 * year) (2750000 / 20) (1056 / 20) 2604
                     14706186099 5141033287 1195070000000 (num 9 * week))
   \<and> valid_Computer lsst_dev
   \<and> qvalue (num 0.096 * second) = 0.096
   \<and> calcMultiEpochCycles_6m (num 0.096 * second) lsstWideAndFastDR1 lsst_dev
       = Quantity 205352907637969920000 (qunit cycle)
   \<and> calcMultiEpochCycles_6m (num 0.096 * second)
         (Survey_init (num 0.5 * year) (2750000 / 20) (1056 / 20) 2604
            14706186099 5141033287 1195070000000 (num 9 * week)) lsst_dev
       = Quantity 205352907622256640000 (qunit cycle)
   \<and> qvalue (calcMultiEpochCycles_6m (num 0.096 * second)
         (Survey_init (num 0.5 * year) (2750000 / 20) (1056 / 20) 2604
            14706186099 5141033287 1195070000000 (num 9 * week)) lsst_dev)
       < qvalue (calcMultiEpochCycles_6m (num 0.096 * second) lsstWideAndFastDR1 lsst_dev)"
  by (simp add: calcMultiEpochCycles_6m_def lsstWideAndFastDR1_def valid_defs table_defs unit_defs)

text \<open>
  C8, amended. For a positive time per unit and tables that satisfy the invariants, no
  stage total decreases when scale parameters are increased, with one exception: the
  multi-epoch total does not decrease when the forced source count or the count of stars
  out of the plane increases, and does not increase when the star count or the epochs per
  object increase. The totals compared are in the same unit. For the coadd detection and
  measurement stage this holds for \<open>calcCoaddProcessCycles\<close>, for the six-month sum over
  detection and measurement and for the one-year cell, with both times in seconds.
\<close>

theorem scale_parameters_monotone:
  assumes "0 < qvalue t"
    and "0 < qvalue td" "0 < qvalue tm" "qunit td = qunit second" "qunit tm = qunit second"
    and "valid_Telescope tel" "valid_Survey s" "valid_Computer c"
    and "valid_CoaddParameters cp" "valid_TemplateParameters tp"
    and "Telescope_le tel tel'" "Survey_le s s'"
    and "CoaddParameters_le cp cp'" "TemplateParameters_le tp tp'"
    and "valid_Survey m" "valid_Survey m'" "Survey_le_multiEpoch m m'"
  shows
    "cycles_le (calcDiffimCycles_6m t tel s c) (calcDiffimCycles_6m t tel' s' c)
     \<and> cycles_le (calcDiffimCycles_1y t tel s c) (calcDiffimCycles_1y t tel' s' c)
     \<and> cycles_le (calcTemplateCoadditionCycles_6m t cp tp tel s c)
                 (calcTemplateCoadditionCycles_6m t cp' tp' tel' s' c)
     \<and> cycles_le (calcTemplateCoadditionCycles_1y t cp tp tel s c)
                 (calcTemplateCoadditionCycles_1y t cp' tp' tel' s' c)
     \<and> cycles_le (calcDeepCoadditionCycles_6m t cp tel s c)
                 (calcDeepCoadditionCycles_6m t cp' tel' s' c)
     \<and> cycles_le (calcDeepCoadditionCycles_1y t cp tel s c)
                 (calcDeepCoadditionCycles_1y t cp' tel' s' c)
     \<and> cycles_le (calcCoaddProcessCycles t cp tel s c) (calcCoaddProcessCycles t cp' tel' s' c)
     \<and> returns_le
          (add (calcCoaddProcessCycles td cp tel s c) (calcCoaddProcessCycles tm cp tel s c))
          (add (calcCoaddProcessCycles td cp' tel' s' c) (calcCoaddProcessCycles tm cp' tel' s' c))
     \<and> returns_le (coaddProcessCycles_of td tm tel c cp s)
                  (coaddProcessCycles_of td tm tel' c cp' s')
     \<and> cycles_le (calcAlertSDQA_6m t s c) (calcAlertSDQA_6m t s' c)
     \<and> cycles_le (calcAlertSDQA_1y t s c) (calcAlertSDQA_1y t s' c)
     \<and> cycles_le (calcMultiEpochCycles_6m t m c) (calcMultiEpochCycles_6m t m' c)
     \<and> cycles_le (calcMultiEpochCycles_1y t m c) (calcMultiEpochCycles_1y t m' c)"
proof -
  note diffim = calcDiffimCycles_6m_mono
    [OF \<open>0 < qvalue t\<close> \<open>valid_Telescope tel\<close> \<open>valid_Survey s\<close> \<open>valid_Computer c\<close>
        \<open>Telescope_le tel tel'\<close> \<open>Survey_le s s'\<close>]
  note template = calcTemplateCoadditionCycles_6m_mono
    [OF \<open>0 < qvalue t\<close> \<open>valid_Telescope tel\<close> \<open>valid_Survey s\<close> \<open>valid_Computer c\<close>
        \<open>valid_CoaddParameters cp\<close> \<open>valid_TemplateParameters tp\<close>
        \<open>Telescope_le tel tel'\<close> \<open>Survey_le s s'\<close> \<open>CoaddParameters_le cp cp'\<close>
        \<open>TemplateParameters_le tp tp'\<close>]
  note deep = calcDeepCoadditionCycles_6m_mono
    [OF \<open>0 < qvalue t\<close> \<open>valid_Telescope tel\<close> \<open>valid_Survey s\<close> \<open>valid_Computer c\<close>
        \<open>valid_CoaddParameters cp\<close>
        \<open>Telescope_le tel tel'\<close> \<open>Survey_le s s'\<close> \<open>CoaddParameters_le cp cp'\<close>]
  note process = calcCoaddProcessCycles_mono
    [OF \<open>0 < qvalue t\<close> \<open>valid_Telescope tel\<close> \<open>valid_Survey s\<close> \<open>valid_Computer c\<close>
        \<open>valid_CoaddParameters cp\<close>
        \<open>Telescope_le tel tel'\<close> \<open>Survey_le s s'\<close> \<open>CoaddParameters_le cp cp'\<close>]
  note six_month_sum = coaddProcess_6m_sum_mono
    [OF \<open>0 < qvalue td\<close> \<open>0 < qvalue tm\<close> \<open>qunit td = qunit second\<close> \<open>qunit tm = qunit second\<close>
        \<open>valid_Telescope tel\<close> \<open>valid_Survey s\<close> \<open>valid_Computer c\<close> \<open>valid_CoaddParameters cp\<close>
        \<open>Telescope_le tel tel'\<close> \<open>Survey_le s s'\<close> \<open>CoaddParameters_le cp cp'\<close>]
  note one_year_cell = coaddProcessCycles_of_mono
    [OF \<open>0 < qvalue td\<close> \<open>0 < qvalue tm\<close> \<open>qunit td = qunit second\<close> \<open>qunit tm = qunit second\<close>
        \<open>valid_Telescope tel\<close> \<open>valid_Survey s\<close> \<open>valid_Computer c\<close> \<open>valid_CoaddParameters cp\<close>
        \<open>Telescope_le tel tel'\<close> \<open>Survey_le s s'\<close> \<open>CoaddParameters_le cp cp'\<close>]
  note sdqa = calcAlertSDQA_6m_mono
    [OF \<open>0 < qvalue t\<close> \<open>valid_Survey s\<close> \<open>valid_Computer c\<close> \<open>Survey_le s s'\<close>]
  note multiEpoch = calcMultiEpochCycles_6m_mono
    [OF \<open>0 < qvalue t\<close> \<open>valid_Survey m\<close> \<open>valid_Survey m'\<close> \<open>valid_Computer c\<close>
        \<open>Survey_le_multiEpoch m m'\<close>]
  show ?thesis
    unfolding calcDiffimCycles_same calcTemplateCoadditionCycles_same
      calcDeepCoadditionCycles_same calcMultiEpochCycles_same calcAlertSDQA_same
    by (intro conjI diffim template deep process six_month_sum one_year_cell sdqa multiEpoch)
qed

theorem scale_parameters_monotone_witness:
  "cycles_le (calcDiffimCycles_6m (num 75.8 * second) lsst lsstWideAndFastDR1 abe)
             (calcDiffimCycles_6m (num 75.8 * second) (lsst\<lparr>nCcds := 190\<rparr>)
                (lsstWideAndFastDR1\<lparr>nVisits := 137501\<rparr>) abe)
   \<and> returns_le
        (coaddProcessCycles_of (num 6.19 * second) (num 10.50 * second) lsst abe coaddParams
           lsstWideAndFastDR1)
        (coaddProcessCycles_of (num 6.19 * second) (num 10.50 * second) (lsst\<lparr>nCcds := 190\<rparr>) abe
           coaddParams (lsstWideAndFastDR1\<lparr>nVisits := 137501\<rparr>))
   \<and> cycles_le (calcMultiEpochCycles_6m (num 75.8 * second) lsstWideAndFastDR1 abe)
               (calcMultiEpochCycles_6m (num 75.8 * second)
                  (lsstWideAndFastDR1\<lparr>nForcedSources := 1195070000001\<rparr>) abe)"
proof -
  have times: "0 < qvalue (num 75.8 * second)" "0 < qvalue (num 6.19 * second)"
      "0 < qvalue (num 10.50 * second)" "qunit (num 6.19 * second) = qunit second"
      "qunit (num 10.50 * second) = qunit second"
    by (simp_all add: unit_defs)
  have tables: "valid_Telescope lsst" "valid_Survey lsstWideAndFastDR1" "valid_Computer abe"
      "valid_CoaddParameters coaddParams" "valid_TemplateParameters templateParams"
    by (simp_all add: valid_defs fieldOfView_lsst)
       (simp_all add: lsstWideAndFastDR1_def table_defs unit_defs)
  have larger: "Telescope_le lsst (lsst\<lparr>nCcds := 190\<rparr>)"
      "Survey_le lsstWideAndFastDR1 (lsstWideAndFastDR1\<lparr>nVisits := 137501\<rparr>)"
      "CoaddParameters_le coaddParams coaddParams"
      "TemplateParameters_le templateParams templateParams"
    by (simp_all add: le_defs lsstWideAndFastDR1_def table_defs)
  have multi: "valid_Survey (lsstWideAndFastDR1\<lparr>nForcedSources := 1195070000001\<rparr>)"
      "Survey_le_multiEpoch lsstWideAndFastDR1
         (lsstWideAndFastDR1\<lparr>nForcedSources := 1195070000001\<rparr>)"
    by (simp_all add: valid_defs Survey_le_multiEpoch_def lsstWideAndFastDR1_def table_defs)
  from scale_parameters_monotone [OF times tables larger tables(2) multi]
  show ?thesis by blast
qed

section \<open>The deep coaddition stage of the one-year notebook\<close>

text \<open>
  C10. In the one-year notebook the deep coaddition total is computed with the clock rate
  of \<open>abe\<close> (2.33e9 cycles per second), not with that of \<open>tiger3\<close> (2.8e9), which the
  template coaddition stage uses with the same time per CCD: it is the time per CCD
  (21917/3000 seconds) times 189 times 2.33e9 times 4 times 275000, that is 3.5389e18
  cycles within 0.01 percent.
\<close>

theorem deepCoaddCycles_1y_on_abe:
  "coaddCcdTime = Some (Quantity (21917 / 3000) (qunit second))
   \<and> deepCoaddCycles_1y =
       Some (calcDeepCoadditionCycles_1y (the coaddCcdTime) coaddParams lsst lsstWideAndFast1Year abe)
   \<and> clockSpeed abe = Quantity 2330000000 (qunit cycle / qunit second)
   \<and> clockSpeed tiger3 = Quantity 2800000000 (qunit cycle / qunit second)
   \<and> deepCoaddCycles_1y =
       Some (Quantity (qvalue (the coaddCcdTime) * 189 * 2330000000 * 4 * 275000) (qunit cycle))
   \<and> approx (qvalue (the deepCoaddCycles_1y)) (3.5389 * 10 ^ 18) 0.0001
   \<and> deepCoaddCycles_1y \<noteq>
       Some (calcDeepCoadditionCycles_1y (the coaddCcdTime) coaddParams lsst lsstWideAndFast1Year tiger3)
   \<and> templateCycles_1y =
       Some (calcTemplateCoadditionCycles_1y (the coaddCcdTime) coaddParams templateParams
               lsst lsstWideAndFast1Year tiger3)"
proof -
  have deep: "deepCoaddCycles_1y =
       Some (calcDeepCoadditionCycles_1y (the coaddCcdTime) coaddParams lsst lsstWideAndFast1Year abe)"
    by (simp add: deepCoaddCycles_1y_def coaddCcdTime_eq)
  have prod: "deepCoaddCycles_1y =
       Some (Quantity (qvalue (the coaddCcdTime) * 189 * 2330000000 * 4 * 275000) (qunit cycle))"
    by (simp add: deepCoaddCycles_1y_eq coaddCcdTime_eq)
  have near: "approx (qvalue (the deepCoaddCycles_1y)) (3.5389 * 10 ^ 18) 0.0001"
    by (simp add: deepCoaddCycles_1y_eq approx_def)
  have other: "deepCoaddCycles_1y \<noteq>
       Some (calcDeepCoadditionCycles_1y (the coaddCcdTime) coaddParams lsst lsstWideAndFast1Year tiger3)"
    by (simp add: deepCoaddCycles_1y_eq coaddCcdTime_eq calcDeepCoadditionCycles_1y_def
        lsstWideAndFast1Year_def table_defs unit_defs)
  have template: "templateCycles_1y =
       Some (calcTemplateCoadditionCycles_1y (the coaddCcdTime) coaddParams templateParams
               lsst lsstWideAndFast1Year tiger3)"
    by (simp add: templateCycles_1y_def coaddCcdTime_eq)
  show ?thesis
    by (intro conjI coaddCcdTime_eq deep clockSpeed_abe clockSpeed_tiger3 prod near other template)
qed

end
